theory Spec2Isabelle
  imports Main
begin

section \<open>JavaScript values used by \<open>invoke.js\<close>\<close>

text \<open>
  A plain JavaScript object used as a dictionary (\<open>const peersMap = {}\<close>) is modelled by the
  list of its own enumerable string-keyed properties in creation order. Two rules of the
  language are written out, because \<open>Object.values\<close> observes them:
  \<^item> own property keys are enumerated with the array indices first, in ascending numeric
    order, and the other string keys after them in creation order; an array index is the
    canonical decimal spelling of an integer between 0 and 2^32 - 2;
  \<^item> assigning an object to the key \<open>__proto__\<close> of an object literal replaces its
    prototype and creates no own property.
\<close>

type_synonym 'v js_object = "(string \<times> 'v) list"

definition is_digit :: "char \<Rightarrow> bool" where
  "is_digit c = (48 \<le> (of_char c :: int) \<and> (of_char c :: int) \<le> 57)"

fun decimal_value :: "int \<Rightarrow> string \<Rightarrow> int" where
  "decimal_value acc [] = acc"
| "decimal_value acc (c # cs) = decimal_value (10 * acc + ((of_char c :: int) - 48)) cs"

definition array_index :: "string \<Rightarrow> int option" where
  "array_index k =
     (if k \<noteq> [] \<and> list_all is_digit k \<and> (k = ''0'' \<or> 49 \<le> (of_char (hd k) :: int))
         \<and> decimal_value 0 k < 4294967295
      then Some (decimal_value 0 k) else None)"

definition is_array_index :: "string \<Rightarrow> bool" where
  "is_array_index k = (array_index k \<noteq> None)"

text \<open>\<open>obj[k] = v\<close>: an existing property keeps its place and takes the new value, a new
  property is created last.\<close>

definition set_property :: "'v js_object \<Rightarrow> string \<Rightarrow> 'v \<Rightarrow> 'v js_object" where
  "set_property obj k v =
     (if k = ''__proto__'' then obj
      else if k \<in> set (map fst obj)
        then map (\<lambda>e. if fst e = k then (k, v) else e) obj
        else obj @ [(k, v)])"

text \<open>\<open>Object.keys\<close> and \<open>Object.values\<close>.\<close>

definition own_keys :: "'v js_object \<Rightarrow> string list" where
  "own_keys obj =
     map fst (sort_key (\<lambda>e. the (array_index (fst e))) [e \<leftarrow> obj. is_array_index (fst e)])
     @ map fst [e \<leftarrow> obj. \<not> is_array_index (fst e)]"

definition object_values :: "'v js_object \<Rightarrow> 'v list" where
  "object_values obj =
     map snd (sort_key (\<lambda>e. the (array_index (fst e))) [e \<leftarrow> obj. is_array_index (fst e)])
     @ map snd [e \<leftarrow> obj. \<not> is_array_index (fst e)]"

section \<open>Peer registry\<close>

record peer =
  cn :: string
  url :: string
  broadcastUrl :: string
  adminUserId :: string

text \<open>
  \<open>peers = []\<close> in the parameter list and \<open>(peers || [])\<close> in the body: an absent
  (\<open>undefined\<close> or \<open>null\<close>) peer list is \<open>None\<close> and is read as the empty list.
\<close>

definition peers_or_empty :: "peer list option \<Rightarrow> peer list" where
  "peers_or_empty ps = (case ps of None \<Rightarrow> [] | Some l \<Rightarrow> l)"

definition peersMap :: "peer list option \<Rightarrow> peer js_object" where
  "peersMap ps = foldl (\<lambda>m p. set_property m (cn p) p) [] (peers_or_empty ps)"

definition uniquePeers :: "peer list option \<Rightarrow> peer list" where
  "uniquePeers ps = object_values (peersMap ps)"

text \<open>Specification vocabulary for the registry: the identities of a list in the order of
  their first occurrence, and the last descriptor that carries an identity.\<close>

fun first_occurrences :: "'a list \<Rightarrow> 'a list" where
  "first_occurrences [] = []"
| "first_occurrences (x # xs) = x # first_occurrences [y \<leftarrow> xs. y \<noteq> x]"

definition last_with_cn :: "peer list \<Rightarrow> string \<Rightarrow> peer option" where
  "last_with_cn ps k = find (\<lambda>p. cn p = k) (rev ps)"

section \<open>Errors, promises and the collaborators of \<open>invoke\<close>\<close>

text \<open>
  A thrown or rejected value is an \<open>Error\<close> with its message (\<open>new Error(x)\<close> stores
  \<open>String(x)\<close> as the message and nothing else of \<open>x\<close>), or the \<open>TypeError\<close> that the
  language raises when a property of \<open>undefined\<close> is read.
\<close>

datatype js_error = Error string | TypeError string

datatype 'a promise = Pending | Resolved 'a | Rejected js_error

text \<open>\<open>transactionProposalResponse\<close>: the value of \<open>JSON.parse(payload)\<close>, or the payload
  text when \<open>JSON.parse\<close> throws. The type \<open>'j\<close> stands for parsed JSON values.\<close>

datatype 'j decoded = Structured 'j | Raw string

record response_obj =
  resp_status :: int
  resp_message :: string
  resp_payload :: string

text \<open>An element of \<open>proposalResponses\<close>: a proposal response has a \<open>response\<close> object, an
  error object has a \<open>message\<close>; a missing property is \<open>None\<close>.\<close>

record proposal_response =
  pr_response :: "response_obj option"
  pr_message :: "string option"

record broadcast_response =
  br_status :: string

record tx_status =
  event_status :: string
  tx_id :: string

record invoke_args =
  chaincodeId :: string
  fcn :: string
  channelId :: string
  peers :: "peer list option"
  orderer :: string
  userId :: string
  maxTimeout :: "nat option"

text \<open>What the event hub and the timers deliver to the callbacks installed by the listener:
  a commit event with its validation code, a transport error, the expiry of the deadline
  timer, and the expiry of a timer set by \<open>setTimeout(startListening, 0)\<close>.\<close>

datatype hub_event =
    TxEvent string
  | HubError string
  | DeadlineExpired
  | RestartDue

text \<open>
  The collaborators are outside the repository's sources; each is represented by what it
  answers in one invocation. \<open>Inl\<close> is a rejected promise (or a throw), \<open>Inr\<close> a fulfilled
  one. \<open>setUserContext\<close> is called twice, first for the caller, then for the administrator
  of the listening peer. \<open>send_rejects_first\<close> says, when both the ordering submission and the
  listener reject, that the submission's rejection reaches \<open>Promise.all\<close> first.
  \<open>JSON_parse\<close>, \<open>ToBoolean\<close> and \<open>ToString\<close> are the language's operations on parsed
  values. \<open>parseErrorMessage\<close> gives the message of the \<open>Error\<close> object that the helper of
  the same name returns (the repository's test expects an instance of \<open>Error\<close>).
\<close>

record 'j env =
  JSON_parse :: "string \<Rightarrow> 'j option"
  ToBoolean :: "'j \<Rightarrow> bool"
  ToString :: "'j \<Rightarrow> string"
  parseErrorMessage :: "string \<Rightarrow> string"
  createFabricClient :: "js_error + unit"
  setUserContext_user :: "js_error + unit"
  transactionID :: string
  sendTransactionProposal :: "js_error + proposal_response list option"
  loadPeerCert :: "js_error + unit"
  sendTransaction :: "js_error + broadcast_response option"
  setUserContext_admin :: "js_error + unit"
  events :: "hub_event list"
  send_rejects_first :: bool

text \<open>The calls made on the collaborators, the timers and the listener promise, in order.\<close>

datatype effect =
    CreateFabricClient "peer list"
  | SetUserContext string
  | NewTransactionID
  | SendTransactionProposal
  | LoadPeerCert peer
  | SendTransaction
  | NewEventHub
  | SetPeerAddr string
  | SetTimeout nat
  | ClearTimeout
  | Connect
  | RegisterTxEvent string
  | UnregisterTxEvent string
  | Disconnect
  | SetTimeout0
  | TxPromiseResolve tx_status
  | TxPromiseReject js_error

definition MAX_RETRIES_EVENT_HUB :: nat where
  "MAX_RETRIES_EVENT_HUB = 5"

definition MAX_TIMEOUT :: nat where
  "MAX_TIMEOUT = 30000"

section \<open>The listener: \<open>txPromise\<close>\<close>

text \<open>
  The state that the closures of \<open>txPromise\<close> share: whether the deadline timer \<open>handle\<close>
  is still pending, whether the event hub is connected and the transaction callbacks are
  registered, the counter \<open>retries\<close>, the number of pending \<open>setTimeout(startListening, 0)\<close>,
  the state of the promise, and the calls made so far.
\<close>

record listener =
  handle_armed :: bool
  connected :: bool
  registered :: bool
  retries :: nat
  restarts_due :: nat
  txPromise :: "tx_status promise"
  trace :: "effect list"

definition emit :: "effect \<Rightarrow> listener \<Rightarrow> listener" where
  "emit e s = s\<lparr>trace := trace s @ [e]\<rparr>"

text \<open>A promise settles once: a later call of its resolve or reject function changes nothing.\<close>

definition txPromiseResolve :: "tx_status \<Rightarrow> listener \<Rightarrow> listener" where
  "txPromiseResolve v s =
     (let s' = emit (TxPromiseResolve v) s
      in if txPromise s' = Pending then s'\<lparr>txPromise := Resolved v\<rparr> else s')"

definition txPromiseReject :: "js_error \<Rightarrow> listener \<Rightarrow> listener" where
  "txPromiseReject err s =
     (let s' = emit (TxPromiseReject err) s
      in if txPromise s' = Pending then s'\<lparr>txPromise := Rejected err\<rparr> else s')"

definition setTimeout :: "nat \<Rightarrow> listener \<Rightarrow> listener" where
  "setTimeout ms s = emit (SetTimeout ms) (s\<lparr>handle_armed := True\<rparr>)"

definition clearTimeout :: "listener \<Rightarrow> listener" where
  "clearTimeout s = emit ClearTimeout (s\<lparr>handle_armed := False\<rparr>)"

definition eventHub_connect :: "listener \<Rightarrow> listener" where
  "eventHub_connect s = emit Connect (s\<lparr>connected := True\<rparr>)"

definition eventHub_disconnect :: "listener \<Rightarrow> listener" where
  "eventHub_disconnect s = emit Disconnect (s\<lparr>connected := False\<rparr>)"

definition registerTxEvent :: "string \<Rightarrow> listener \<Rightarrow> listener" where
  "registerTxEvent txid s = emit (RegisterTxEvent txid) (s\<lparr>registered := True\<rparr>)"

definition unregisterTxEvent :: "string \<Rightarrow> listener \<Rightarrow> listener" where
  "unregisterTxEvent txid s = emit (UnregisterTxEvent txid) (s\<lparr>registered := False\<rparr>)"

definition startListening :: "string \<Rightarrow> listener \<Rightarrow> listener" where
  "startListening txid s = registerTxEvent txid (eventHub_connect s)"

text \<open>The deadline callback given to \<open>setTimeout(\<dots>, maxTimeout)\<close>.\<close>

definition onDeadline :: "listener \<Rightarrow> listener" where
  "onDeadline s =
     txPromiseReject (Error ''Transaction did not complete within the allowed time'')
       (eventHub_disconnect s)"

text \<open>The first callback of \<open>registerTxEvent\<close>. \<open>new Error(returnStatus)\<close> is given an
  object, whose string conversion is \<open>[object Object]\<close>.\<close>

definition onEvent :: "string \<Rightarrow> string \<Rightarrow> listener \<Rightarrow> listener" where
  "onEvent txid code s =
     (let s1 = eventHub_disconnect (unregisterTxEvent txid (clearTimeout s));
          returnStatus = \<lparr>event_status = code, tx_id = txid\<rparr>
      in if code \<noteq> ''VALID''
         then txPromiseReject (Error ''[object Object]'') s1
         else txPromiseResolve returnStatus s1)"

text \<open>The second callback of \<open>registerTxEvent\<close>.\<close>

definition onError :: "string \<Rightarrow> listener \<Rightarrow> listener" where
  "onError err s =
     (let s1 = (if retries s \<ge> MAX_RETRIES_EVENT_HUB
                then emit SetTimeout0 (s\<lparr>restarts_due := restarts_due s + 1\<rparr>)
                else txPromiseReject
                       (Error (''There was a problem with the eventhub: '' @ err @ '' '')) s)
      in s1\<lparr>retries := retries s1 + 1\<rparr>)"

text \<open>
  One delivery. A timer fires only while it is pending, and once; the event hub calls the
  callbacks of a transaction only while they are registered.
\<close>

fun deliver :: "string \<Rightarrow> listener \<Rightarrow> hub_event \<Rightarrow> listener" where
  "deliver txid s (TxEvent code) = (if registered s then onEvent txid code s else s)"
| "deliver txid s (HubError err) = (if registered s then onError err s else s)"
| "deliver txid s DeadlineExpired =
     (if handle_armed s then onDeadline (s\<lparr>handle_armed := False\<rparr>) else s)"
| "deliver txid s RestartDue =
     (if restarts_due s > 0
      then startListening txid (s\<lparr>restarts_due := restarts_due s - 1\<rparr>) else s)"

definition idle :: listener where
  "idle = \<lparr>handle_armed = False, connected = False, registered = False, retries = 0,
           restarts_due = 0, txPromise = Pending, trace = []\<rparr>"

text \<open>The executor of \<open>txPromise\<close>: \<open>setUserContext(\<dots>).then(\<dots>).catch(txPromiseReject)\<close>,
  followed by everything the environment delivers.\<close>

definition listen :: "'j env \<Rightarrow> peer \<Rightarrow> nat \<Rightarrow> listener" where
  "listen env peerForListening ms =
     (let s0 = emit (SetUserContext (adminUserId peerForListening)) idle
      in case setUserContext_admin env of
           Inl err \<Rightarrow> txPromiseReject err s0
         | Inr _ \<Rightarrow>
             foldl (deliver (transactionID env))
               (startListening (transactionID env) (setTimeout ms s0)) (events env))"

section \<open>Endorsement evaluation, commit orchestration and reconciliation\<close>

definition decode_payload :: "'j env \<Rightarrow> string \<Rightarrow> 'j decoded" where
  "decode_payload env payload =
     (case JSON_parse env payload of Some j \<Rightarrow> Structured j | None \<Rightarrow> Raw payload)"

fun truthy :: "'j env \<Rightarrow> 'j decoded \<Rightarrow> bool" where
  "truthy env (Structured j) = ToBoolean env j"
| "truthy env (Raw s) = (s \<noteq> [])"

fun to_string :: "'j env \<Rightarrow> 'j decoded \<Rightarrow> string" where
  "to_string env (Structured j) = ToString env j"
| "to_string env (Raw s) = s"

definition generic_failure :: string where
  "generic_failure =
     ''Failed to send Proposal or receive valid response. Response null or status is not 200. exiting...''"

text \<open>
  The first half of the \<open>then\<close> block on the broadcast results: the values of
  \<open>transactionProposalResponse\<close>, \<open>proposalError\<close> and \<open>isProposalGood\<close> after the
  \<open>if\<close> chain, or the \<open>TypeError\<close> of \<open>proposalResponses[0].response\<close> on an empty array.
\<close>

definition examine ::
  "'j env \<Rightarrow> proposal_response list option \<Rightarrow> js_error + ('j decoded option \<times> js_error option \<times> bool)"
where
  "examine env proposalResponses =
     (case proposalResponses of
        None \<Rightarrow> Inr (None, None, False)
      | Some [] \<Rightarrow> Inl (TypeError ''Cannot read property response of undefined'')
      | Some (r # _) \<Rightarrow>
          (case pr_response r of
             Some resp \<Rightarrow>
               Inr (Some (decode_payload env (resp_payload resp)), None, resp_status resp = 200)
           | None \<Rightarrow>
               (case pr_message r of
                  None \<Rightarrow> Inr (None, None, False)
                | Some m \<Rightarrow>
                    if m \<noteq> [] then Inr (None, Some (Error (parseErrorMessage env m)), False)
                    else Inr (None, None, False))))"

text \<open>\<open>throw proposalError || new Error(transactionProposalResponse || '\<dots>')\<close>.\<close>

definition proposal_failure :: "'j env \<Rightarrow> 'j decoded option \<Rightarrow> js_error option \<Rightarrow> js_error" where
  "proposal_failure env transactionProposalResponse proposalError =
     (case proposalError of
        Some e \<Rightarrow> e
      | None \<Rightarrow>
          (case transactionProposalResponse of
             None \<Rightarrow> Error generic_failure
           | Some v \<Rightarrow> if truthy env v then Error (to_string env v) else Error generic_failure))"

fun join :: "string \<Rightarrow> string list \<Rightarrow> string" where
  "join sep [] = []"
| "join sep [x] = x"
| "join sep (x # y # ys) = x @ sep @ join sep (y # ys)"

text \<open>
  The \<open>then\<close> block on the results of \<open>Promise.all\<close>. \<open>results\<close> is an array, so
  \<open>results.status\<close> in the first message is \<open>undefined\<close>. Reading
  \<open>results[1].event_status\<close> of an absent second result raises a \<open>TypeError\<close>, which the
  final \<open>catch\<close> turns into the rejection.
\<close>

definition order_failure :: string where
  "order_failure = ''Failed to order the transaction.Error code: undefined ''"

definition commit_failure :: "tx_status \<Rightarrow> string" where
  "commit_failure st =
     ''Transaction failed to be committed to the ledger due to: '' @ event_status st @ ''.''"

definition reconcile ::
  "'j decoded \<Rightarrow> broadcast_response option \<Rightarrow> tx_status option \<Rightarrow> 'j decoded promise"
where
  "reconcile transactionProposalResponse r0 r1 =
     (let transactionSucceeded = (case r0 of None \<Rightarrow> False | Some r \<Rightarrow> br_status r = ''SUCCESS'');
          errors0 = (if transactionSucceeded then [] else [order_failure])
      in case r1 of
           None \<Rightarrow> Rejected (TypeError ''Cannot read property event_status of undefined'')
         | Some st \<Rightarrow>
             (let commitSucceeded = (event_status st = ''VALID'');
                  errors = (if commitSucceeded then errors0 else errors0 @ [commit_failure st])
              in if transactionSucceeded \<and> commitSucceeded
                 then Resolved transactionProposalResponse
                 else Rejected (Error (join ''\<newline>'' errors))))"

text \<open>\<open>Promise.all([sendPromise, txPromise])\<close>: fulfilled when both are, rejected with the
  rejection that comes first.\<close>

definition promise_all ::
  "bool \<Rightarrow> js_error + broadcast_response option \<Rightarrow> tx_status promise
     \<Rightarrow> (broadcast_response option \<times> tx_status) promise"
where
  "promise_all send_first sendPromise tx =
     (case sendPromise of
        Inl e0 \<Rightarrow>
          (case tx of
             Rejected e1 \<Rightarrow> if send_first then Rejected e0 else Rejected e1
           | _ \<Rightarrow> Rejected e0)
      | Inr r0 \<Rightarrow>
          (case tx of
             Pending \<Rightarrow> Pending
           | Resolved st \<Rightarrow> Resolved (r0, st)
           | Rejected e1 \<Rightarrow> Rejected e1))"

text \<open>\<open>maxTimeout = MAX_TIMEOUT\<close> in the parameter list.\<close>

definition deadline :: "invoke_args \<Rightarrow> nat" where
  "deadline a = (case maxTimeout a of None \<Rightarrow> MAX_TIMEOUT | Some ms \<Rightarrow> ms)"

text \<open>The branch \<open>if (isProposalGood)\<close> with the reconciliation that follows it.\<close>

definition commit_orchestration ::
  "'j env \<Rightarrow> invoke_args \<Rightarrow> peer \<Rightarrow> 'j decoded \<Rightarrow> effect list \<times> 'j decoded promise"
where
  "commit_orchestration env a peerForListening transactionProposalResponse =
     (case loadPeerCert env of
        Inl e \<Rightarrow> ([LoadPeerCert peerForListening], Rejected e)
      | Inr _ \<Rightarrow>
          (let l = listen env peerForListening (deadline a);
               calls = [LoadPeerCert peerForListening, SendTransaction, NewEventHub,
                        SetPeerAddr (broadcastUrl peerForListening)] @ trace l
           in (calls,
               case promise_all (send_rejects_first env) (sendTransaction env) (txPromise l) of
                 Pending \<Rightarrow> Pending
               | Rejected e \<Rightarrow> Rejected e
               | Resolved (r0, r1) \<Rightarrow> reconcile transactionProposalResponse r0 (Some r1))))"

text \<open>The \<open>then\<close> block on the broadcast results.\<close>

definition evaluate ::
  "'j env \<Rightarrow> invoke_args \<Rightarrow> peer \<Rightarrow> proposal_response list option
     \<Rightarrow> effect list \<times> 'j decoded promise"
where
  "evaluate env a peerForListening proposalResponses =
     (case examine env proposalResponses of
        Inl e \<Rightarrow> ([], Rejected e)
      | Inr (transactionProposalResponse, proposalError, isProposalGood) \<Rightarrow>
          (case (isProposalGood, transactionProposalResponse) of
             (True, Some v) \<Rightarrow> commit_orchestration env a peerForListening v
           | _ \<Rightarrow> ([], Rejected (proposal_failure env transactionProposalResponse proposalError))))"

section \<open>\<open>invoke\<close>\<close>

text \<open>
  The request built for the proposal (chaincode id, function, serialised arguments) is
  handed to the channel unchanged and is not part of the trace.
\<close>

definition invoke :: "'j env \<Rightarrow> invoke_args \<Rightarrow> effect list \<times> 'j decoded promise" where
  "invoke env a =
     (case uniquePeers (peers a) of
        [] \<Rightarrow> ([], Rejected (Error ''No endorser peers provided.''))
      | peerForListening # others \<Rightarrow>
          (let c1 = [CreateFabricClient (peerForListening # others)];
               c2 = c1 @ [SetUserContext (userId a)];
               c3 = c2 @ [NewTransactionID, SendTransactionProposal]
           in case createFabricClient env of
                Inl e \<Rightarrow> (c1, Rejected e)
              | Inr _ \<Rightarrow>
                  (case setUserContext_user env of
                     Inl e \<Rightarrow> (c2, Rejected e)
                   | Inr _ \<Rightarrow>
                       (case sendTransactionProposal env of
                          Inl e \<Rightarrow> (c3, Rejected e)
                        | Inr proposalResponses \<Rightarrow>
                            (let (calls, outcome) = evaluate env a peerForListening proposalResponses
                             in (c3 @ calls, outcome))))))"

section \<open>Vocabulary of the claims and the scenarios of the specification\<close>

definition first_response :: "proposal_response list option \<Rightarrow> proposal_response option" where
  "first_response proposalResponses =
     (case proposalResponses of Some (r # _) \<Rightarrow> Some r | _ \<Rightarrow> None)"

definition endorsed :: "proposal_response \<Rightarrow> bool" where
  "endorsed r = (case pr_response r of Some resp \<Rightarrow> resp_status resp = 200 | None \<Rightarrow> False)"

definition send_succeeded :: "broadcast_response option \<Rightarrow> bool" where
  "send_succeeded r0 = (case r0 of Some r \<Rightarrow> br_status r = ''SUCCESS'' | None \<Rightarrow> False)"

definition mk_peer :: "string \<Rightarrow> string \<Rightarrow> peer" where
  "mk_peer name address =
     \<lparr>cn = name, url = address, broadcastUrl = address, adminUserId = ''admin''\<rparr>"

definition endorsement :: "int \<Rightarrow> string \<Rightarrow> proposal_response" where
  "endorsement code body =
     \<lparr>pr_response = Some \<lparr>resp_status = code, resp_message = ''OK'', resp_payload = body\<rparr>,
      pr_message = None\<rparr>"

definition scenario_args :: invoke_args where
  "scenario_args =
     \<lparr>chaincodeId = ''fabcar'', fcn = ''createCar'', channelId = ''mychannel'',
      peers = Some [mk_peer ''peer0'' ''grpc://localhost:7051''], orderer = ''grpc://localhost:7050'',
      userId = ''user1'', maxTimeout = None\<rparr>"

text \<open>An environment in which every collaborator succeeds and the commit event is valid
  (scenario E). Parsed values are the JSON literals \<open>true\<close> and \<open>false\<close>.\<close>

definition scenario_env :: "bool env" where
  "scenario_env =
     \<lparr>JSON_parse = (\<lambda>s. if s = ''true'' then Some True else if s = ''false'' then Some False else None),
      ToBoolean = (\<lambda>b. b),
      ToString = (\<lambda>b. if b then ''true'' else ''false''),
      parseErrorMessage = (\<lambda>m. ''Error: '' @ m),
      createFabricClient = Inr (),
      setUserContext_user = Inr (),
      transactionID = ''tx1'',
      sendTransactionProposal = Inr (Some [endorsement 200 ''true'']),
      loadPeerCert = Inr (),
      sendTransaction = Inr (Some \<lparr>br_status = ''SUCCESS''\<rparr>),
      setUserContext_admin = Inr (),
      events = [TxEvent ''VALID''],
      send_rejects_first = False\<rparr>"

section \<open>Properties of the peer registry\<close>

lemma keys_set_property:
  "map fst (set_property obj k v) =
     (if k = ''__proto__'' \<or> k \<in> set (map fst obj) then map fst obj else map fst obj @ [k])"
  by (induction obj) (auto simp: set_property_def)

lemma filter_first_occurrences:
  "filter P (first_occurrences xs) = first_occurrences (filter P xs)"
proof (induction xs rule: first_occurrences.induct)
  case 1
  then show ?case by simp
next
  case (2 x xs)
  have comm: "[y \<leftarrow> filter P xs. y \<noteq> x] = filter P [y \<leftarrow> xs. y \<noteq> x]"
    by (induction xs) auto
  show ?case
  proof (cases "P x")
    case True
    then show ?thesis using 2 comm by simp
  next
    case False
    have drop: "filter P [y \<leftarrow> xs. y \<noteq> x] = filter P xs"
      using False by (induction xs) auto
    have "filter P (first_occurrences [y \<leftarrow> xs. y \<noteq> x]) = first_occurrences (filter P xs)"
      using 2 drop by simp
    then show ?thesis using False by simp
  qed
qed

lemma filter_conj_swap: "filter P (filter Q xs) = [x \<leftarrow> xs. P x \<and> Q x]"
  by (induction xs) auto

lemma keys_foldl:
  "map fst (foldl (\<lambda>m p. set_property m (cn p) p) m ps) =
     map fst m @ first_occurrences [k \<leftarrow> map cn ps. k \<noteq> ''__proto__'' \<and> k \<notin> set (map fst m)]"
proof (induction ps arbitrary: m)
  case Nil
  then show ?case by simp
next
  case (Cons p ps)
  let ?m' = "set_property m (cn p) p"
  have IH: "map fst (foldl (\<lambda>m p. set_property m (cn p) p) ?m' ps) =
     map fst ?m' @ first_occurrences [k \<leftarrow> map cn ps. k \<noteq> ''__proto__'' \<and> k \<notin> set (map fst ?m')]"
    by (rule Cons.IH)
  show ?case
  proof (cases "cn p = ''__proto__'' \<or> cn p \<in> set (map fst m)")
    case True
    then have "map fst ?m' = map fst m" by (simp add: keys_set_property)
    with IH True show ?thesis by auto
  next
    case False
    then have keys: "map fst ?m' = map fst m @ [cn p]" by (simp add: keys_set_property)
    have "[k \<leftarrow> map cn ps. k \<noteq> ''__proto__'' \<and> k \<notin> set (map fst ?m')]
        = [y \<leftarrow> [k \<leftarrow> map cn ps. k \<noteq> ''__proto__'' \<and> k \<notin> set (map fst m)]. y \<noteq> cn p]"
      unfolding keys by (induction ps) auto
    with IH keys False show ?thesis by simp
  qed
qed

lemma set_first_occurrences: "set (first_occurrences xs) = set xs"
  by (induction xs rule: first_occurrences.induct) auto

lemma distinct_first_occurrences: "distinct (first_occurrences xs)"
  by (induction xs rule: first_occurrences.induct) (auto simp: set_first_occurrences)

lemma length_first_occurrences: "length (first_occurrences xs) \<le> length xs"
proof (induction xs rule: first_occurrences.induct)
  case 1
  then show ?case by simp
next
  case (2 x xs)
  have "length (first_occurrences [y \<leftarrow> xs. y \<noteq> x]) \<le> length xs"
    by (rule order_trans [OF 2 length_filter_le])
  then show ?case by simp
qed

lemma keys_peersMap:
  "map fst (peersMap ps) = first_occurrences [k \<leftarrow> map cn (peers_or_empty ps). k \<noteq> ''__proto__'']"
  by (simp add: peersMap_def keys_foldl)

lemma distinct_keys_peersMap: "distinct (map fst (peersMap ps))"
  by (simp add: keys_peersMap distinct_first_occurrences)

lemma set_set_property:
  "e \<in> set (set_property obj k v) \<Longrightarrow>
     (k = ''__proto__'' \<and> e \<in> set obj) \<or> (k \<noteq> ''__proto__'' \<and> (e = (k, v) \<or> (e \<in> set obj \<and> fst e \<noteq> k)))"
  by (auto simp: set_property_def split: if_splits)

lemma last_with_cn_snoc:
  "last_with_cn (ps @ [p]) k = (if cn p = k then Some p else last_with_cn ps k)"
  by (simp add: last_with_cn_def)

lemma entries_foldl:
  "e \<in> set (foldl (\<lambda>m p. set_property m (cn p) p) [] ps) \<Longrightarrow> last_with_cn ps (fst e) = Some (snd e)"
proof (induction ps arbitrary: e rule: rev_induct)
  case Nil
  then show ?case by simp
next
  case (snoc p ps)
  let ?m = "foldl (\<lambda>m p. set_property m (cn p) p) [] ps"
  from snoc.prems have mem: "e \<in> set (set_property ?m (cn p) p)" by simp
  have noproto: "fst e' \<noteq> ''__proto__''" if "e' \<in> set ?m" for e'
  proof -
    from that have "fst e' \<in> set (map fst ?m)" by auto
    then show ?thesis by (simp add: keys_foldl set_first_occurrences)
  qed
  from set_set_property [OF mem] show ?case
  proof (elim disjE conjE)
    assume "cn p = ''__proto__''" "e \<in> set ?m"
    then show ?thesis using noproto [of e] snoc.IH [of e] by (auto simp: last_with_cn_snoc)
  next
    assume "e = (cn p, p)"
    then show ?thesis by (simp add: last_with_cn_snoc)
  next
    assume "e \<in> set ?m" "fst e \<noteq> cn p"
    then show ?thesis using snoc.IH [of e] by (auto simp: last_with_cn_snoc)
  qed
qed

lemma entries_peersMap:
  "e \<in> set (peersMap ps) \<Longrightarrow> last_with_cn (peers_or_empty ps) (fst e) = Some (snd e)"
  by (simp add: peersMap_def entries_foldl)

lemma last_with_cn_Some: "last_with_cn ps k = Some p \<Longrightarrow> cn p = k \<and> p \<in> set ps"
  by (induction ps rule: rev_induct) (auto simp: last_with_cn_snoc last_with_cn_def split: if_splits)

lemma cn_entries_peersMap: "e \<in> set (peersMap ps) \<Longrightarrow> cn (snd e) = fst e"
  using entries_peersMap last_with_cn_Some by blast

lemma set_object_values: "set (object_values obj) = snd ` set obj"
  by (auto simp: object_values_def)

lemma length_object_values: "length (object_values obj) = length obj"
  using sum_length_filter_compl [of "\<lambda>e. is_array_index (fst e)" obj]
  by (simp add: object_values_def)

lemma map_cn_uniquePeers: "map cn (uniquePeers ps) = own_keys (peersMap ps)"
proof -
  have "cn (snd e) = fst e" if "e \<in> set (peersMap ps)" for e
    using that by (rule cn_entries_peersMap)
  then show ?thesis
    by (simp add: uniquePeers_def object_values_def own_keys_def)
qed

lemma distinct_own_keys:
  assumes "distinct (map fst obj)"
  shows "distinct (own_keys obj)"
proof -
  let ?A = "\<lambda>e. is_array_index (fst e)"
  have 1: "distinct (map fst (sort_key (\<lambda>e. the (array_index (fst e))) (filter ?A obj)))"
    using distinct_map_filter [OF assms, of ?A] by (simp add: distinct_map)
  have 2: "distinct (map fst [e \<leftarrow> obj. \<not> ?A e])"
    using distinct_map_filter [OF assms] by blast
  show ?thesis unfolding own_keys_def using 1 2 by auto
qed

lemma nonindex_own_keys:
  "[k \<leftarrow> own_keys obj. \<not> is_array_index k] = [k \<leftarrow> map fst obj. \<not> is_array_index k]"
proof -
  let ?A = "\<lambda>e. is_array_index (fst e)"
  have "[k \<leftarrow> map fst (sort_key (\<lambda>e. the (array_index (fst e))) (filter ?A obj)). \<not> is_array_index k] = []"
    by (auto simp: filter_empty_conv)
  moreover have "[k \<leftarrow> map fst [e \<leftarrow> obj. \<not> ?A e]. \<not> is_array_index k] = [k \<leftarrow> map fst obj. \<not> is_array_index k]"
    by (induction obj) auto
  ultimately show ?thesis by (simp add: own_keys_def)
qed

lemma index_own_keys_sorted:
  "sorted (map (\<lambda>k. the (array_index k)) [k \<leftarrow> own_keys obj. is_array_index k])"
proof -
  let ?A = "\<lambda>e. is_array_index (fst e)"
  let ?s = "sort_key (\<lambda>e. the (array_index (fst e))) (filter ?A obj)"
  have a: "[k \<leftarrow> map fst ?s. is_array_index k] = map fst ?s"
    by (auto simp: filter_id_conv)
  have b: "[k \<leftarrow> map fst [e \<leftarrow> obj. \<not> ?A e]. is_array_index k] = []"
    by (auto simp: filter_empty_conv)
  have "sorted (map (\<lambda>e. the (array_index (fst e))) ?s)" by (rule sorted_sort_key)
  then have "sorted (map (\<lambda>k. the (array_index k)) (map fst ?s))" by (simp add: comp_def)
  then show ?thesis by (simp add: own_keys_def a b)
qed

lemma own_keys_partition:
  "own_keys obj = [k \<leftarrow> own_keys obj. is_array_index k] @ [k \<leftarrow> own_keys obj. \<not> is_array_index k]"
proof -
  let ?A = "\<lambda>e. is_array_index (fst e)"
  let ?s = "sort_key (\<lambda>e. the (array_index (fst e))) (filter ?A obj)"
  have a: "[k \<leftarrow> map fst ?s. is_array_index k] = map fst ?s"
    by (auto simp: filter_id_conv)
  have b: "[k \<leftarrow> map fst [e \<leftarrow> obj. \<not> ?A e]. is_array_index k] = []"
    by (auto simp: filter_empty_conv)
  have c: "[k \<leftarrow> map fst ?s. \<not> is_array_index k] = []"
    by (auto simp: filter_empty_conv)
  have d: "[k \<leftarrow> map fst [e \<leftarrow> obj. \<not> ?A e]. \<not> is_array_index k] = map fst [e \<leftarrow> obj. \<not> ?A e]"
    by (auto simp: filter_id_conv)
  show ?thesis
    unfolding own_keys_def filter_append a b c d by simp
qed

lemma uniquePeers_ids_distinct: "distinct (map cn (uniquePeers ps))"
  by (simp add: map_cn_uniquePeers distinct_own_keys distinct_keys_peersMap)

lemma uniquePeers_length: "length (uniquePeers ps) \<le> length (peers_or_empty ps)"
proof -
  have "length (uniquePeers ps) = length (map fst (peersMap ps))"
    by (simp add: uniquePeers_def length_object_values)
  also have "\<dots> \<le> length [k \<leftarrow> map cn (peers_or_empty ps). k \<noteq> ''__proto__'']"
    unfolding keys_peersMap by (rule length_first_occurrences)
  also have "\<dots> \<le> length (peers_or_empty ps)"
    by (metis length_filter_le length_map)
  finally show ?thesis .
qed

lemma uniquePeers_order:
  "[k \<leftarrow> map cn (uniquePeers ps). \<not> is_array_index k]
     = first_occurrences [k \<leftarrow> map cn (peers_or_empty ps). \<not> is_array_index k \<and> k \<noteq> ''__proto__'']"
proof -
  have "[k \<leftarrow> map cn (uniquePeers ps). \<not> is_array_index k]
      = [k \<leftarrow> map fst (peersMap ps). \<not> is_array_index k]"
    by (simp add: map_cn_uniquePeers nonindex_own_keys)
  also have "\<dots> = first_occurrences [k \<leftarrow> [k \<leftarrow> map cn (peers_or_empty ps). k \<noteq> ''__proto__'']. \<not> is_array_index k]"
    by (simp only: keys_peersMap filter_first_occurrences)
  also have "[k \<leftarrow> [k \<leftarrow> map cn (peers_or_empty ps). k \<noteq> ''__proto__'']. \<not> is_array_index k]
      = [k \<leftarrow> map cn (peers_or_empty ps). \<not> is_array_index k \<and> k \<noteq> ''__proto__'']"
    by (rule filter_conj_swap)
  finally show ?thesis .
qed

lemma uniquePeers_last:
  "p \<in> set (uniquePeers ps) \<Longrightarrow> last_with_cn (peers_or_empty ps) (cn p) = Some p"
  using entries_peersMap cn_entries_peersMap
  by (fastforce simp: uniquePeers_def set_object_values)

lemma uniquePeers_no_index:
  assumes "\<forall>p \<in> set (peers_or_empty ps). \<not> is_array_index (cn p)"
  shows "uniquePeers ps = map (\<lambda>k. the (last_with_cn (peers_or_empty ps) k))
           (first_occurrences [k \<leftarrow> map cn (peers_or_empty ps). k \<noteq> ''__proto__''])"
proof -
  let ?obj = "peersMap ps"
  have noidx: "\<not> is_array_index (fst e)" if "e \<in> set ?obj" for e
  proof -
    from that have "fst e \<in> set (map fst ?obj)" by auto
    then have "fst e \<in> cn ` set (peers_or_empty ps)"
      by (auto simp: keys_peersMap set_first_occurrences)
    with assms show ?thesis by auto
  qed
  have "[e \<leftarrow> ?obj. is_array_index (fst e)] = []" "[e \<leftarrow> ?obj. \<not> is_array_index (fst e)] = ?obj"
    using noidx by (auto simp: filter_empty_conv filter_id_conv)
  then have "uniquePeers ps = map snd ?obj"
    by (simp add: uniquePeers_def object_values_def)
  also have "\<dots> = map (\<lambda>e. the (last_with_cn (peers_or_empty ps) (fst e))) ?obj"
    by (rule map_cong) (auto simp: entries_peersMap)
  also have "\<dots> = map (\<lambda>k. the (last_with_cn (peers_or_empty ps) k)) (map fst ?obj)"
    by (simp add: comp_def)
  finally show ?thesis by (simp only: keys_peersMap)
qed

lemma uniquePeers_absent: "uniquePeers None = []"
  by (simp add: uniquePeers_def peersMap_def peers_or_empty_def object_values_def)

lemma uniquePeers_empty: "uniquePeers (Some []) = []"
  by (simp add: uniquePeers_def peersMap_def peers_or_empty_def object_values_def)

lemma uniquePeers_proto: "uniquePeers (Some [mk_peer ''__proto__'' u]) = []"
  by (simp add: uniquePeers_def peersMap_def peers_or_empty_def object_values_def set_property_def mk_peer_def)

text \<open>
  Claim C7. When the peer list is absent, empty, or leaves no entry in \<open>peersMap\<close>,
  \<open>invoke\<close> rejects with the error \<open>No endorser peers provided.\<close> and has called no
  collaborator: the trace of calls is empty.
\<close>

theorem invoke_no_peers:
  assumes "peers a = None \<or> peers a = Some [] \<or> uniquePeers (peers a) = []"
  shows "invoke env a = ([], Rejected (Error ''No endorser peers provided.''))"
proof -
  from assms have "uniquePeers (peers a) = []"
    by (auto simp: uniquePeers_absent uniquePeers_empty)
  then show ?thesis by (simp add: invoke_def)
qed

theorem invoke_no_peers_witness:
  "invoke scenario_env (scenario_args\<lparr>peers := None\<rparr>) = ([], Rejected (Error ''No endorser peers provided.''))
   \<and> invoke scenario_env (scenario_args\<lparr>peers := Some []\<rparr>) = ([], Rejected (Error ''No endorser peers provided.''))
   \<and> invoke scenario_env (scenario_args\<lparr>peers := Some [mk_peer ''__proto__'' ''grpc://localhost:7051'']\<rparr>)
        = ([], Rejected (Error ''No endorser peers provided.''))"
  using invoke_no_peers [of "scenario_args\<lparr>peers := None\<rparr>" scenario_env]
    invoke_no_peers [of "scenario_args\<lparr>peers := Some []\<rparr>" scenario_env]
    invoke_no_peers [of "scenario_args\<lparr>peers := Some [mk_peer ''__proto__'' ''grpc://localhost:7051'']\<rparr>" scenario_env]
  by (simp add: uniquePeers_proto)

text \<open>
  Claim C8, amended. The identities of \<open>uniquePeers\<close> are pairwise different and there are
  at most as many peers as in the input. The identities that are not array indices appear
  in the order of their first occurrence in the input (the key \<open>__proto__\<close> leaves no
  entry); the identities that are array indices are enumerated in ascending numeric order.
\<close>

theorem uniquePeers_dedup:
  "distinct (map cn (uniquePeers ps))
   \<and> length (uniquePeers ps) \<le> length (peers_or_empty ps)
   \<and> [k \<leftarrow> map cn (uniquePeers ps). \<not> is_array_index k]
       = first_occurrences [k \<leftarrow> map cn (peers_or_empty ps). \<not> is_array_index k \<and> k \<noteq> ''__proto__'']
   \<and> sorted (map (\<lambda>k. the (array_index k)) [k \<leftarrow> map cn (uniquePeers ps). is_array_index k])
   \<and> map cn (uniquePeers ps)
       = [k \<leftarrow> map cn (uniquePeers ps). is_array_index k]
         @ [k \<leftarrow> map cn (uniquePeers ps). \<not> is_array_index k]"
proof (intro conjI)
  show "distinct (map cn (uniquePeers ps))"
    by (rule uniquePeers_ids_distinct)
  show "length (uniquePeers ps) \<le> length (peers_or_empty ps)"
    by (rule uniquePeers_length)
  show "[k \<leftarrow> map cn (uniquePeers ps). \<not> is_array_index k]
       = first_occurrences [k \<leftarrow> map cn (peers_or_empty ps). \<not> is_array_index k \<and> k \<noteq> ''__proto__'']"
    by (rule uniquePeers_order)
  show "sorted (map (\<lambda>k. the (array_index k)) [k \<leftarrow> map cn (uniquePeers ps). is_array_index k])"
    unfolding map_cn_uniquePeers by (rule index_own_keys_sorted)
  show "map cn (uniquePeers ps)
       = [k \<leftarrow> map cn (uniquePeers ps). is_array_index k]
         @ [k \<leftarrow> map cn (uniquePeers ps). \<not> is_array_index k]"
    unfolding map_cn_uniquePeers by (rule own_keys_partition)
qed

theorem uniquePeers_dedup_witness:
  "uniquePeers (Some [mk_peer ''peer0'' ''grpc://a'', mk_peer ''0'' ''grpc://b'', mk_peer ''peer0'' ''grpc://c''])
     = [mk_peer ''0'' ''grpc://b'', mk_peer ''peer0'' ''grpc://c'']
   \<and> (distinct (map cn (uniquePeers (Some [mk_peer ''peer0'' ''grpc://a'', mk_peer ''0'' ''grpc://b'', mk_peer ''peer0'' ''grpc://c''])))
   \<and> length (uniquePeers (Some [mk_peer ''peer0'' ''grpc://a'', mk_peer ''0'' ''grpc://b'', mk_peer ''peer0'' ''grpc://c'']))
       \<le> length (peers_or_empty (Some [mk_peer ''peer0'' ''grpc://a'', mk_peer ''0'' ''grpc://b'', mk_peer ''peer0'' ''grpc://c'']))
   \<and> [k \<leftarrow> map cn (uniquePeers (Some [mk_peer ''peer0'' ''grpc://a'', mk_peer ''0'' ''grpc://b'', mk_peer ''peer0'' ''grpc://c''])). \<not> is_array_index k]
       = first_occurrences [k \<leftarrow> map cn (peers_or_empty (Some [mk_peer ''peer0'' ''grpc://a'', mk_peer ''0'' ''grpc://b'', mk_peer ''peer0'' ''grpc://c''])). \<not> is_array_index k \<and> k \<noteq> ''__proto__'']
   \<and> sorted (map (\<lambda>k. the (array_index k)) [k \<leftarrow> map cn (uniquePeers (Some [mk_peer ''peer0'' ''grpc://a'', mk_peer ''0'' ''grpc://b'', mk_peer ''peer0'' ''grpc://c''])). is_array_index k])
   \<and> map cn (uniquePeers (Some [mk_peer ''peer0'' ''grpc://a'', mk_peer ''0'' ''grpc://b'', mk_peer ''peer0'' ''grpc://c'']))
       = [k \<leftarrow> map cn (uniquePeers (Some [mk_peer ''peer0'' ''grpc://a'', mk_peer ''0'' ''grpc://b'', mk_peer ''peer0'' ''grpc://c''])). is_array_index k]
         @ [k \<leftarrow> map cn (uniquePeers (Some [mk_peer ''peer0'' ''grpc://a'', mk_peer ''0'' ''grpc://b'', mk_peer ''peer0'' ''grpc://c''])). \<not> is_array_index k])"
proof (rule conjI)
  show "uniquePeers (Some [mk_peer ''peer0'' ''grpc://a'', mk_peer ''0'' ''grpc://b'', mk_peer ''peer0'' ''grpc://c''])
     = [mk_peer ''0'' ''grpc://b'', mk_peer ''peer0'' ''grpc://c'']"
    by (simp add: uniquePeers_def peersMap_def peers_or_empty_def object_values_def set_property_def
        mk_peer_def is_array_index_def array_index_def is_digit_def)
qed (rule uniquePeers_dedup)

text \<open>The order of first occurrence is not kept for identities such as \<open>1\<close> and \<open>0\<close>:
  \<open>Object.values\<close> enumerates array-index keys in ascending numeric order.\<close>

theorem uniquePeers_order_counterexample:
  "map cn (uniquePeers (Some [mk_peer ''1'' ''grpc://a'', mk_peer ''0'' ''grpc://b'']))
     = [''0'', ''1'']
   \<and> first_occurrences (map cn [mk_peer ''1'' ''grpc://a'', mk_peer ''0'' ''grpc://b''])
     = [''1'', ''0'']"
  by (simp add: uniquePeers_def peersMap_def peers_or_empty_def object_values_def set_property_def
      mk_peer_def is_array_index_def array_index_def is_digit_def)

text \<open>
  Claim C9, amended. Every descriptor of \<open>uniquePeers\<close>, the listening peer
  \<open>uniquePeers[0]\<close> included, is the last descriptor of the input with its identity. When
  no identity is an array index, \<open>uniquePeers\<close> lists, in the order of the first occurrences
  of the identities, the last descriptor of each.
\<close>

theorem uniquePeers_keeps_last:
  "(\<forall>p \<in> set (uniquePeers ps). last_with_cn (peers_or_empty ps) (cn p) = Some p)
   \<and> ((\<forall>p \<in> set (peers_or_empty ps). \<not> is_array_index (cn p)) \<longrightarrow>
        uniquePeers ps = map (\<lambda>k. the (last_with_cn (peers_or_empty ps) k))
          (first_occurrences [k \<leftarrow> map cn (peers_or_empty ps). k \<noteq> ''__proto__'']))"
  using uniquePeers_last uniquePeers_no_index by blast

theorem uniquePeers_keeps_last_witness:
  "uniquePeers (Some [mk_peer ''peer0'' ''grpc://old'', mk_peer ''peer1'' ''grpc://b'', mk_peer ''peer0'' ''grpc://new''])
     = [mk_peer ''peer0'' ''grpc://new'', mk_peer ''peer1'' ''grpc://b'']"
proof -
  let ?ps = "[mk_peer ''peer0'' ''grpc://old'', mk_peer ''peer1'' ''grpc://b'', mk_peer ''peer0'' ''grpc://new'']"
  have h: "\<forall>p \<in> set (peers_or_empty (Some ?ps)). \<not> is_array_index (cn p)"
    by (simp add: peers_or_empty_def mk_peer_def is_array_index_def array_index_def is_digit_def)
  from uniquePeers_keeps_last [of "Some ?ps"] h
  have "uniquePeers (Some ?ps) = map (\<lambda>k. the (last_with_cn (peers_or_empty (Some ?ps)) k))
          (first_occurrences [k \<leftarrow> map cn (peers_or_empty (Some ?ps)). k \<noteq> ''__proto__''])"
    by blast
  then show ?thesis
    by (simp add: peers_or_empty_def mk_peer_def last_with_cn_def)
qed

text \<open>With an array-index identity the retained descriptor is still the last one, but its
  place is not that of the first occurrence: \<open>7\<close> is met after \<open>b\<close> and listed before it.\<close>

theorem uniquePeers_position_counterexample:
  "uniquePeers (Some [mk_peer ''b'' ''grpc://b'', mk_peer ''7'' ''grpc://old'', mk_peer ''7'' ''grpc://new''])
     = [mk_peer ''7'' ''grpc://new'', mk_peer ''b'' ''grpc://b'']
   \<and> first_occurrences (map cn [mk_peer ''b'' ''grpc://b'', mk_peer ''7'' ''grpc://old'', mk_peer ''7'' ''grpc://new''])
     = [''b'', ''7'']"
  by (simp add: uniquePeers_def peersMap_def peers_or_empty_def object_values_def set_property_def
      mk_peer_def is_array_index_def array_index_def is_digit_def)

section \<open>Properties of the listener\<close>

lemmas listener_defs =
  emit_def txPromiseReject_def txPromiseResolve_def setTimeout_def clearTimeout_def
  eventHub_connect_def eventHub_disconnect_def registerTxEvent_def unregisterTxEvent_def
  startListening_def onDeadline_def onEvent_def onError_def idle_def listen_def Let_def
  MAX_RETRIES_EVENT_HUB_def

text \<open>The callbacks for a commit event and for the deadline clean up before they settle the
  promise.\<close>

lemma commit_event_cleans_up:
  "trace (listen (env\<lparr>setUserContext_admin := Inr (), events := [TxEvent code]\<rparr>) p ms)
     = [SetUserContext (adminUserId p), SetTimeout ms, Connect, RegisterTxEvent (transactionID env),
        ClearTimeout, UnregisterTxEvent (transactionID env), Disconnect,
        (if code \<noteq> ''VALID'' then TxPromiseReject (Error ''[object Object]'')
         else TxPromiseResolve \<lparr>event_status = code, tx_id = transactionID env\<rparr>)]
   \<and> \<not> handle_armed (listen (env\<lparr>setUserContext_admin := Inr (), events := [TxEvent code]\<rparr>) p ms)
   \<and> \<not> connected (listen (env\<lparr>setUserContext_admin := Inr (), events := [TxEvent code]\<rparr>) p ms)"
  by (simp add: listener_defs)

lemma deadline_disconnects:
  "trace (listen (env\<lparr>setUserContext_admin := Inr (), events := [DeadlineExpired]\<rparr>) p ms)
     = [SetUserContext (adminUserId p), SetTimeout ms, Connect, RegisterTxEvent (transactionID env),
        Disconnect, TxPromiseReject (Error ''Transaction did not complete within the allowed time'')]
   \<and> txPromise (listen (env\<lparr>setUserContext_admin := Inr (), events := [DeadlineExpired]\<rparr>) p ms)
     = Rejected (Error ''Transaction did not complete within the allowed time'')"
  by (simp add: listener_defs)

lemma listen_invalid_code:
  "code \<noteq> ''VALID'' \<Longrightarrow>
   txPromise (listen (env\<lparr>setUserContext_admin := Inr (), events := [TxEvent code]\<rparr>) p ms)
     = Rejected (Error ''[object Object]'')"
  by (simp add: listener_defs)

lemma listen_valid:
  "txPromise (listen (env\<lparr>setUserContext_admin := Inr (), events := [TxEvent ''VALID'']\<rparr>) p ms)
     = Resolved \<lparr>event_status = ''VALID'', tx_id = transactionID env\<rparr>"
  by (simp add: listener_defs)

lemma listen_admin_failure:
  "setUserContext_admin env = Inl err \<Longrightarrow>
   txPromise (listen env p ms) = Rejected err
   \<and> trace (listen env p ms) = [SetUserContext (adminUserId p), TxPromiseReject err]"
  by (simp add: listener_defs)

text \<open>
  Claim C1 (retries bounded by five, the sixth consecutive transport error fatal) against
  the code: the error callback tests \<open>retries >= MAX_RETRIES_EVENT_HUB\<close>, so the first
  transport error already rejects the listener promise with the eventhub error and schedules
  no new \<open>startListening\<close>; of six consecutive transport errors the first five call the
  reject function and only the sixth schedules a restart.
\<close>

theorem first_transport_error_is_fatal:
  "txPromise (listen (env\<lparr>setUserContext_admin := Inr (), events := [HubError err]\<rparr>) p ms)
     = Rejected (Error (''There was a problem with the eventhub: '' @ err @ '' ''))
   \<and> trace (listen (env\<lparr>setUserContext_admin := Inr (), events := [HubError err]\<rparr>) p ms)
     = [SetUserContext (adminUserId p), SetTimeout ms, Connect, RegisterTxEvent (transactionID env),
        TxPromiseReject (Error (''There was a problem with the eventhub: '' @ err @ '' ''))]
   \<and> restarts_due (listen (env\<lparr>setUserContext_admin := Inr (), events := [HubError err]\<rparr>) p ms) = 0
   \<and> drop 4 (trace (listen (env\<lparr>setUserContext_admin := Inr (),
          events := [HubError err, HubError err, HubError err, HubError err, HubError err, HubError err]\<rparr>) p ms))
     = replicate 5 (TxPromiseReject (Error (''There was a problem with the eventhub: '' @ err @ '' '')))
       @ [SetTimeout0]"
  by (simp add: listener_defs numeral_eq_Suc)

text \<open>
  Claim C2 (the deadline timer is cancelled on every terminal transition but the timeout)
  against the code: the rejection after a transport error does not call \<open>clearTimeout\<close>.
  The timer stays pending after the promise has settled, and when it expires its callback
  disconnects the event hub and calls the reject function with the timeout error.
\<close>

theorem deadline_fires_after_fatal_error:
  "txPromise (listen (env\<lparr>setUserContext_admin := Inr (), events := [HubError err]\<rparr>) p ms)
     = Rejected (Error (''There was a problem with the eventhub: '' @ err @ '' ''))
   \<and> handle_armed (listen (env\<lparr>setUserContext_admin := Inr (), events := [HubError err]\<rparr>) p ms)
   \<and> ClearTimeout \<notin> set (trace (listen (env\<lparr>setUserContext_admin := Inr (), events := [HubError err]\<rparr>) p ms))
   \<and> trace (listen (env\<lparr>setUserContext_admin := Inr (), events := [HubError err, DeadlineExpired]\<rparr>) p ms)
     = [SetUserContext (adminUserId p), SetTimeout ms, Connect, RegisterTxEvent (transactionID env),
        TxPromiseReject (Error (''There was a problem with the eventhub: '' @ err @ '' '')),
        Disconnect,
        TxPromiseReject (Error ''Transaction did not complete within the allowed time'')]"
  by (simp add: listener_defs)

text \<open>
  Claim C6 (the event hub is disconnected before the listener promise settles, on every exit
  path) against the code: the rejection after a transport error settles the promise while
  the event hub is still connected; no \<open>disconnect\<close> has been called.
\<close>

theorem fatal_error_leaves_hub_connected:
  "txPromise (listen (env\<lparr>setUserContext_admin := Inr (), events := [HubError err]\<rparr>) p ms)
     = Rejected (Error (''There was a problem with the eventhub: '' @ err @ '' ''))
   \<and> connected (listen (env\<lparr>setUserContext_admin := Inr (), events := [HubError err]\<rparr>) p ms)
   \<and> Disconnect \<notin> set (trace (listen (env\<lparr>setUserContext_admin := Inr (), events := [HubError err]\<rparr>) p ms))"
  by (simp add: listener_defs)

section \<open>Properties of the workflow\<close>

lemma examine_endorsed:
  "pr_response r = Some resp \<Longrightarrow>
   examine env (Some (r # rs)) =
     Inr (Some (decode_payload env (resp_payload resp)), None, resp_status resp = 200)"
  by (simp add: examine_def)

lemma evaluate_endorsed:
  "pr_response r = Some resp \<Longrightarrow> resp_status resp = 200 \<Longrightarrow>
   evaluate env a p (Some (r # rs)) =
     commit_orchestration env a p (decode_payload env (resp_payload resp))"
  by (simp add: evaluate_def examine_endorsed)

lemma commit_orchestration_outcome:
  "loadPeerCert env = Inr u \<Longrightarrow>
   snd (commit_orchestration env a p v) =
     (case promise_all (send_rejects_first env) (sendTransaction env) (txPromise (listen env p (deadline a))) of
        Pending \<Rightarrow> Pending
      | Rejected e \<Rightarrow> Rejected e
      | Resolved (r0, r1) \<Rightarrow> reconcile v r0 (Some r1))"
  by (simp add: commit_orchestration_def Let_def)

lemma commit_orchestration_calls:
  "LoadPeerCert p \<in> set (fst (commit_orchestration env a p v))"
  by (simp add: commit_orchestration_def Let_def split: sum.splits)

lemma invoke_evaluates:
  "uniquePeers (peers a) = p # others \<Longrightarrow> createFabricClient env = Inr u1 \<Longrightarrow>
   setUserContext_user env = Inr u2 \<Longrightarrow> sendTransactionProposal env = Inr prs \<Longrightarrow>
   invoke env a =
     ([CreateFabricClient (p # others), SetUserContext (userId a), NewTransactionID,
       SendTransactionProposal] @ fst (evaluate env a p prs),
      snd (evaluate env a p prs))"
  by (simp add: invoke_def Let_def split: prod.splits)

lemma uniquePeers_scenario:
  "uniquePeers (Some [mk_peer ''peer0'' u]) = [mk_peer ''peer0'' u]"
  by (simp add: uniquePeers_def peersMap_def peers_or_empty_def object_values_def set_property_def
      mk_peer_def is_array_index_def array_index_def is_digit_def)

lemma first_response_Some:
  "first_response prs = Some r \<longleftrightarrow> (\<exists>rs. prs = Some (r # rs))"
  by (auto simp: first_response_def split: option.splits list.splits)

lemma invoke_commit_outcome:
  assumes "uniquePeers (peers a) = p # others"
    and "createFabricClient env = Inr ()" and "setUserContext_user env = Inr ()"
    and "sendTransactionProposal env = Inr prs" and "first_response prs = Some r"
    and "pr_response r = Some resp" and "resp_status resp = 200"
    and "loadPeerCert env = Inr ()"
  shows "snd (invoke env a) =
     (case promise_all (send_rejects_first env) (sendTransaction env)
             (txPromise (listen env p (deadline a))) of
        Pending \<Rightarrow> Pending
      | Rejected e \<Rightarrow> Rejected e
      | Resolved (r0, r1) \<Rightarrow> reconcile (decode_payload env (resp_payload resp)) r0 (Some r1))"
proof -
  from assms(5) obtain rs where prs: "prs = Some (r # rs)"
    by (auto simp: first_response_Some)
  have "snd (invoke env a) = snd (evaluate env a p prs)"
    using assms(1-4) by (simp add: invoke_evaluates)
  also have "\<dots> = snd (commit_orchestration env a p (decode_payload env (resp_payload resp)))"
    using assms(6,7) by (simp add: prs evaluate_endorsed)
  finally show ?thesis
    using assms(8) by (simp add: commit_orchestration_outcome)
qed

lemma reconcile_success:
  "send_succeeded r0 \<Longrightarrow> event_status st = ''VALID'' \<Longrightarrow> reconcile v r0 (Some st) = Resolved v"
  by (simp add: reconcile_def send_succeeded_def)

lemma reconcile_failure:
  "\<not> (send_succeeded r0 \<and> event_status st = ''VALID'') \<Longrightarrow>
   reconcile v r0 (Some st) =
     Rejected (Error (join ''\<newline>''
       ((if send_succeeded r0 then [] else [order_failure])
        @ (if event_status st = ''VALID'' then [] else [commit_failure st]))))"
  by (auto simp: reconcile_def send_succeeded_def Let_def)

lemma scenario_env_listen:
  "scenario_env = scenario_env\<lparr>setUserContext_admin := Inr (), events := [TxEvent ''VALID'']\<rparr>"
  by (simp add: scenario_env_def)

lemma evaluate_not_endorsed:
  "\<not> (\<exists>r. first_response prs = Some r \<and> endorsed r) \<Longrightarrow>
   fst (evaluate env a p prs) = [] \<and> (\<exists>e. snd (evaluate env a p prs) = Rejected e)"
  by (auto simp: evaluate_def examine_def first_response_def endorsed_def
      split: option.splits list.splits if_splits)

lemma evaluate_advances:
  "LoadPeerCert p \<in> set (fst (evaluate env a p prs)) \<longleftrightarrow> (\<exists>r. first_response prs = Some r \<and> endorsed r)"
proof (cases "\<exists>r. first_response prs = Some r \<and> endorsed r")
  case True
  then obtain r rs resp where "prs = Some (r # rs)" "pr_response r = Some resp" "resp_status resp = 200"
    by (auto simp: first_response_Some endorsed_def split: option.splits)
  then have "evaluate env a p prs = commit_orchestration env a p (decode_payload env (resp_payload resp))"
    by (simp add: evaluate_endorsed)
  with True show ?thesis by (simp add: commit_orchestration_calls)
next
  case False
  then show ?thesis using evaluate_not_endorsed [OF False, of env a p] by simp
qed

lemma evaluate_bad_response:
  "first_response prs = Some r \<Longrightarrow> pr_response r = Some resp \<Longrightarrow> resp_status resp \<noteq> 200 \<Longrightarrow>
   snd (evaluate env a p prs) =
     Rejected (Error (if truthy env (decode_payload env (resp_payload resp))
                      then to_string env (decode_payload env (resp_payload resp))
                      else generic_failure))"
  by (auto simp: first_response_Some evaluate_def examine_def proposal_failure_def)

lemma evaluate_message:
  "first_response prs = Some r \<Longrightarrow> pr_response r = None \<Longrightarrow> pr_message r = Some m \<Longrightarrow> m \<noteq> [] \<Longrightarrow>
   snd (evaluate env a p prs) = Rejected (Error (parseErrorMessage env m))"
  by (auto simp: first_response_Some evaluate_def examine_def proposal_failure_def)

lemma evaluate_generic:
  "prs = None \<or> (\<exists>r. first_response prs = Some r \<and> pr_response r = None
                    \<and> (pr_message r = None \<or> pr_message r = Some [])) \<Longrightarrow>
   snd (evaluate env a p prs) = Rejected (Error generic_failure)"
  by (auto simp: first_response_Some evaluate_def examine_def proposal_failure_def)

text \<open>
  Claim C3. Given the result of the ordering submission and the status the listener resolved
  with, the reconciliation succeeds exactly when the submission has status \<open>SUCCESS\<close> and
  the event status is \<open>VALID\<close>. It then resolves with \<open>transactionProposalResponse\<close>,
  which is the parsed payload of the endorsement, or the payload text when parsing fails;
  otherwise it rejects with an \<open>Error\<close> whose message is the failure reasons of the legs
  joined by newlines. When both promises are fulfilled, the outcome of \<open>invoke\<close> is that of
  the reconciliation.
\<close>

theorem reconcile_verdict:
  "((\<exists>v. reconcile tpr r0 (Some st) = Resolved v) \<longleftrightarrow> send_succeeded r0 \<and> event_status st = ''VALID'')
   \<and> (send_succeeded r0 \<and> event_status st = ''VALID'' \<longrightarrow> reconcile tpr r0 (Some st) = Resolved tpr)
   \<and> (\<not> (send_succeeded r0 \<and> event_status st = ''VALID'') \<longrightarrow>
        reconcile tpr r0 (Some st) =
          Rejected (Error (join ''\<newline>''
            ((if send_succeeded r0 then [] else [order_failure])
             @ (if event_status st = ''VALID'' then [] else [commit_failure st])))))
   \<and> decode_payload env payload =
        (case JSON_parse env payload of Some j \<Rightarrow> Structured j | None \<Rightarrow> Raw payload)
   \<and> (uniquePeers (peers a) = p # others \<and> createFabricClient env = Inr ()
        \<and> setUserContext_user env = Inr () \<and> sendTransactionProposal env = Inr prs
        \<and> first_response prs = Some r \<and> pr_response r = Some resp \<and> resp_status resp = 200
        \<and> loadPeerCert env = Inr () \<and> sendTransaction env = Inr r0
        \<and> txPromise (listen env p (deadline a)) = Resolved st \<longrightarrow>
      snd (invoke env a) = reconcile (decode_payload env (resp_payload resp)) r0 (Some st))"
proof (intro conjI impI)
  show "(\<exists>v. reconcile tpr r0 (Some st) = Resolved v) \<longleftrightarrow> send_succeeded r0 \<and> event_status st = ''VALID''"
  proof (cases "send_succeeded r0 \<and> event_status st = ''VALID''")
    case True
    then show ?thesis by (simp add: reconcile_success)
  next
    case False
    then show ?thesis using reconcile_failure [OF False, of tpr] by simp
  qed
next
  assume "send_succeeded r0 \<and> event_status st = ''VALID''"
  then show "reconcile tpr r0 (Some st) = Resolved tpr" by (simp add: reconcile_success)
next
  assume "\<not> (send_succeeded r0 \<and> event_status st = ''VALID'')"
  then show "reconcile tpr r0 (Some st) =
          Rejected (Error (join ''\<newline>''
            ((if send_succeeded r0 then [] else [order_failure])
             @ (if event_status st = ''VALID'' then [] else [commit_failure st]))))"
    by (rule reconcile_failure)
next
  show "decode_payload env payload =
        (case JSON_parse env payload of Some j \<Rightarrow> Structured j | None \<Rightarrow> Raw payload)"
    by (simp add: decode_payload_def)
next
  assume h: "uniquePeers (peers a) = p # others \<and> createFabricClient env = Inr ()
        \<and> setUserContext_user env = Inr () \<and> sendTransactionProposal env = Inr prs
        \<and> first_response prs = Some r \<and> pr_response r = Some resp \<and> resp_status resp = 200
        \<and> loadPeerCert env = Inr () \<and> sendTransaction env = Inr r0
        \<and> txPromise (listen env p (deadline a)) = Resolved st"
  then have "snd (invoke env a) =
     (case promise_all (send_rejects_first env) (sendTransaction env)
             (txPromise (listen env p (deadline a))) of
        Pending \<Rightarrow> Pending
      | Rejected e \<Rightarrow> Rejected e
      | Resolved (r0, r1) \<Rightarrow> reconcile (decode_payload env (resp_payload resp)) r0 (Some r1))"
    by (intro invoke_commit_outcome [where r = r and others = others and prs = prs]) simp_all
  with h show "snd (invoke env a) = reconcile (decode_payload env (resp_payload resp)) r0 (Some st)"
    by (simp add: promise_all_def)
qed

theorem reconcile_verdict_witness:
  "snd (invoke scenario_env scenario_args) = Resolved (Structured True)
   \<and> reconcile (Structured True) (Some \<lparr>br_status = ''SERVICE_UNAVAILABLE''\<rparr>)
        (Some \<lparr>event_status = ''MVCC_READ_CONFLICT'', tx_id = ''tx1''\<rparr>)
     = Rejected (Error (order_failure @ ''\<newline>''
         @ ''Transaction failed to be committed to the ledger due to: MVCC_READ_CONFLICT.''))"
proof
  let ?p = "mk_peer ''peer0'' ''grpc://localhost:7051''"
  let ?st = "\<lparr>event_status = ''VALID'', tx_id = ''tx1''\<rparr>"
  let ?r0 = "Some \<lparr>br_status = ''SUCCESS''\<rparr>"
  let ?resp = "\<lparr>resp_status = 200, resp_message = ''OK'', resp_payload = ''true''\<rparr>"
  have tx: "txPromise (listen scenario_env ?p (deadline scenario_args)) = Resolved ?st"
    by (subst scenario_env_listen, simp only: listen_valid) (simp add: scenario_env_def)
  have "snd (invoke scenario_env scenario_args)
      = reconcile (decode_payload scenario_env (resp_payload ?resp)) ?r0 (Some ?st)"
    using reconcile_verdict [of "Structured True" ?r0 ?st scenario_env "''true''" scenario_args ?p "[]"
        "Some [endorsement 200 ''true'']" "endorsement 200 ''true''" ?resp,
        THEN conjunct2, THEN conjunct2, THEN conjunct2, THEN conjunct2] tx
    by (simp add: scenario_env_def scenario_args_def uniquePeers_scenario first_response_def
        endorsement_def)
  also have "\<dots> = Resolved (Structured True)"
    using reconcile_verdict [of "Structured True" ?r0 ?st, THEN conjunct2, THEN conjunct1]
    by (simp add: send_succeeded_def scenario_env_def decode_payload_def)
  finally show "snd (invoke scenario_env scenario_args) = Resolved (Structured True)" .
next
  show "reconcile (Structured True) (Some \<lparr>br_status = ''SERVICE_UNAVAILABLE''\<rparr>)
        (Some \<lparr>event_status = ''MVCC_READ_CONFLICT'', tx_id = ''tx1''\<rparr>)
     = Rejected (Error (order_failure @ ''\<newline>''
         @ ''Transaction failed to be committed to the ledger due to: MVCC_READ_CONFLICT.''))"
    using reconcile_verdict [of "Structured True" "Some \<lparr>br_status = ''SERVICE_UNAVAILABLE''\<rparr>"
        "\<lparr>event_status = ''MVCC_READ_CONFLICT'', tx_id = ''tx1''\<rparr>",
        THEN conjunct2, THEN conjunct2, THEN conjunct1]
    by (simp add: send_succeeded_def commit_failure_def)
qed

text \<open>
  Claim C4, amended. The workflow goes on to commit orchestration (its first call loads the
  certificate of the listening peer) exactly when the first proposal response has a
  \<open>response\<close> object with status 200. Otherwise it rejects and makes no further call. The
  reason is, for a first response with a \<open>response\<close> object of another status, the decoded
  payload when it is truthy and else the generic message, whether or not a message is
  present; for a first response without \<open>response\<close> object and with a non-empty message,
  the reason parsed from the message; and the generic message when the response list is
  absent or the first response has neither.
\<close>

theorem evaluate_policy:
  "(LoadPeerCert p \<in> set (fst (evaluate env a p prs))
      \<longleftrightarrow> (\<exists>r. first_response prs = Some r \<and> endorsed r))
   \<and> (\<forall>r resp. first_response prs = Some r \<and> pr_response r = Some resp \<and> resp_status resp = 200 \<longrightarrow>
        evaluate env a p prs = commit_orchestration env a p (decode_payload env (resp_payload resp)))
   \<and> (\<not> (\<exists>r. first_response prs = Some r \<and> endorsed r) \<longrightarrow>
        fst (evaluate env a p prs) = [] \<and> (\<exists>e. snd (evaluate env a p prs) = Rejected e))
   \<and> (\<forall>r resp. first_response prs = Some r \<and> pr_response r = Some resp \<and> resp_status resp \<noteq> 200 \<longrightarrow>
        snd (evaluate env a p prs) =
          Rejected (Error (if truthy env (decode_payload env (resp_payload resp))
                           then to_string env (decode_payload env (resp_payload resp))
                           else generic_failure)))
   \<and> (\<forall>r m. first_response prs = Some r \<and> pr_response r = None \<and> pr_message r = Some m \<and> m \<noteq> [] \<longrightarrow>
        snd (evaluate env a p prs) = Rejected (Error (parseErrorMessage env m)))
   \<and> (prs = None \<or> (\<exists>r. first_response prs = Some r \<and> pr_response r = None
                        \<and> (pr_message r = None \<or> pr_message r = Some [])) \<longrightarrow>
        snd (evaluate env a p prs) = Rejected (Error generic_failure))"
proof (intro conjI allI impI)
  show "LoadPeerCert p \<in> set (fst (evaluate env a p prs))
      \<longleftrightarrow> (\<exists>r. first_response prs = Some r \<and> endorsed r)"
    by (rule evaluate_advances)
next
  fix r resp
  assume "first_response prs = Some r \<and> pr_response r = Some resp \<and> resp_status resp = 200"
  then show "evaluate env a p prs = commit_orchestration env a p (decode_payload env (resp_payload resp))"
    by (auto simp: first_response_Some evaluate_endorsed)
next
  assume "\<not> (\<exists>r. first_response prs = Some r \<and> endorsed r)"
  then show "fst (evaluate env a p prs) = []" "\<exists>e. snd (evaluate env a p prs) = Rejected e"
    using evaluate_not_endorsed [of prs env a p] by simp_all
next
  fix r resp
  assume "first_response prs = Some r \<and> pr_response r = Some resp \<and> resp_status resp \<noteq> 200"
  then show "snd (evaluate env a p prs) =
          Rejected (Error (if truthy env (decode_payload env (resp_payload resp))
                           then to_string env (decode_payload env (resp_payload resp))
                           else generic_failure))"
    using evaluate_bad_response [of prs r resp env a p] by simp
next
  fix r m
  assume "first_response prs = Some r \<and> pr_response r = None \<and> pr_message r = Some m \<and> m \<noteq> []"
  then show "snd (evaluate env a p prs) = Rejected (Error (parseErrorMessage env m))"
    using evaluate_message [of prs r m env a p] by simp
next
  assume "prs = None \<or> (\<exists>r. first_response prs = Some r \<and> pr_response r = None
                        \<and> (pr_message r = None \<or> pr_message r = Some []))"
  then show "snd (evaluate env a p prs) = Rejected (Error generic_failure)"
    by (rule evaluate_generic)
qed

theorem evaluate_policy_witness:
  "snd (evaluate scenario_env scenario_args (mk_peer ''peer0'' ''grpc://localhost:7051'')
         (Some [\<lparr>pr_response = None,
                  pr_message = Some ''Incorrect number of arguments. Expecting 5''\<rparr>]))
     = Rejected (Error ''Error: Incorrect number of arguments. Expecting 5'')
   \<and> evaluate scenario_env scenario_args (mk_peer ''peer0'' ''grpc://localhost:7051'')
         (Some [endorsement 500 ''false''])
     = ([], Rejected (Error generic_failure))
   \<and> LoadPeerCert (mk_peer ''peer0'' ''grpc://localhost:7051'')
       \<in> set (fst (evaluate scenario_env scenario_args (mk_peer ''peer0'' ''grpc://localhost:7051'')
                     (Some [endorsement 200 ''true''])))"
proof (intro conjI)
  let ?p = "mk_peer ''peer0'' ''grpc://localhost:7051''"
  let ?e = "\<lparr>pr_response = None, pr_message = Some ''Incorrect number of arguments. Expecting 5''\<rparr>"
  show "snd (evaluate scenario_env scenario_args ?p (Some [?e]))
     = Rejected (Error ''Error: Incorrect number of arguments. Expecting 5'')"
    using evaluate_policy [of ?p scenario_env scenario_args "Some [?e]",
        THEN conjunct2, THEN conjunct2, THEN conjunct2, THEN conjunct2, THEN conjunct1,
        rule_format, of ?e "''Incorrect number of arguments. Expecting 5''"]
    by (simp add: first_response_def scenario_env_def)
  let ?resp = "\<lparr>resp_status = 500, resp_message = ''OK'', resp_payload = ''false''\<rparr>"
  have "snd (evaluate scenario_env scenario_args ?p (Some [endorsement 500 ''false'']))
      = Rejected (Error generic_failure)"
    using evaluate_policy [of ?p scenario_env scenario_args "Some [endorsement 500 ''false'']",
        THEN conjunct2, THEN conjunct2, THEN conjunct2, THEN conjunct1,
        rule_format, of "endorsement 500 ''false''" ?resp]
    by (simp add: first_response_def endorsement_def decode_payload_def scenario_env_def)
  moreover have "fst (evaluate scenario_env scenario_args ?p (Some [endorsement 500 ''false''])) = []"
    using evaluate_policy [of ?p scenario_env scenario_args "Some [endorsement 500 ''false'']",
        THEN conjunct2, THEN conjunct2, THEN conjunct1]
    by (simp add: first_response_def endorsement_def endorsed_def)
  ultimately show "evaluate scenario_env scenario_args ?p (Some [endorsement 500 ''false''])
     = ([], Rejected (Error generic_failure))"
    by (simp add: prod_eq_iff)
  show "LoadPeerCert ?p \<in> set (fst (evaluate scenario_env scenario_args ?p (Some [endorsement 200 ''true''])))"
    using evaluate_policy [of ?p scenario_env scenario_args "Some [endorsement 200 ''true'']",
        THEN conjunct1]
    by (simp add: first_response_def endorsement_def endorsed_def)
qed

text \<open>A first response that has a \<open>response\<close> object of status 500 and a message as well is
  rejected with the decoded payload, not with the reason parsed from the message.\<close>

theorem evaluate_message_counterexample:
  "evaluate scenario_env scenario_args (mk_peer ''peer0'' ''grpc://localhost:7051'')
     (Some [\<lparr>pr_response = Some \<lparr>resp_status = 500, resp_message = ''failed'',
                                   resp_payload = ''boom''\<rparr>,
              pr_message = Some ''Incorrect number of arguments. Expecting 5''\<rparr>])
     = ([], Rejected (Error ''boom''))
   \<and> parseErrorMessage scenario_env ''Incorrect number of arguments. Expecting 5''
       = ''Error: Incorrect number of arguments. Expecting 5''"
  by (simp add: evaluate_def examine_def proposal_failure_def decode_payload_def scenario_env_def)

text \<open>
  Claim C5 (the reason of a rejection after an invalid commit names the validation code)
  against the code, in scenario F: the event callback rejects with
  \<open>new Error(returnStatus)\<close>, \<open>Promise.all\<close> rejects with it and the final \<open>catch\<close> passes
  it on, so the invocation rejects with the message \<open>[object Object]\<close>.
\<close>

theorem invalid_commit_reason_omits_code:
  "snd (invoke (scenario_env\<lparr>events := [TxEvent ''MVCC_READ_CONFLICT'']\<rparr>) scenario_args)
     = Rejected (Error ''[object Object]'')"
proof -
  let ?env = "scenario_env\<lparr>events := [TxEvent ''MVCC_READ_CONFLICT'']\<rparr>"
  let ?p = "mk_peer ''peer0'' ''grpc://localhost:7051''"
  have tx: "txPromise (listen ?env ?p (deadline scenario_args)) = Rejected (Error ''[object Object]'')"
    using listen_invalid_code [of "''MVCC_READ_CONFLICT''" scenario_env ?p "deadline scenario_args"]
    by (simp add: scenario_env_def)
  have "snd (invoke ?env scenario_args) = snd (evaluate ?env scenario_args ?p (Some [endorsement 200 ''true'']))"
    by (subst invoke_evaluates [where p = ?p and others = "[]" and prs = "Some [endorsement 200 ''true'']"])
       (simp_all add: scenario_env_def scenario_args_def uniquePeers_scenario)
  also have "\<dots> = snd (commit_orchestration ?env scenario_args ?p (decode_payload ?env ''true''))"
    by (subst evaluate_endorsed [where resp = "\<lparr>resp_status = 200, resp_message = ''OK'', resp_payload = ''true''\<rparr>"])
       (simp_all add: endorsement_def)
  also have "\<dots> = Rejected (Error ''[object Object]'')"
    by (subst commit_orchestration_outcome [where u = "()"])
       (simp_all add: tx promise_all_def, simp_all add: scenario_env_def)
  finally show ?thesis .
qed

text \<open>
  Claim C10, amended. If switching to the administrator of the listening peer fails, the
  listener promise rejects with that error and the listener has started no timer, has not
  connected the event hub and has not registered for the transaction. The invocation rejects
  with that same error, unless the ordering submission rejects and its rejection comes
  first: then the invocation rejects with the error of the submission.
\<close>

theorem admin_switch_failure:
  assumes "setUserContext_admin env = Inl err"
  shows "txPromise (listen env p ms) = Rejected err
   \<and> trace (listen env p ms) = [SetUserContext (adminUserId p), TxPromiseReject err]
   \<and> (uniquePeers (peers a) = p # others \<and> createFabricClient env = Inr ()
        \<and> setUserContext_user env = Inr () \<and> sendTransactionProposal env = Inr prs
        \<and> first_response prs = Some r \<and> pr_response r = Some resp \<and> resp_status resp = 200
        \<and> loadPeerCert env = Inr () \<longrightarrow>
      snd (invoke env a) =
        Rejected (case sendTransaction env of
                    Inl e0 \<Rightarrow> if send_rejects_first env then e0 else err
                  | Inr r0 \<Rightarrow> err))"
proof (intro conjI impI)
  show "txPromise (listen env p ms) = Rejected err"
    and "trace (listen env p ms) = [SetUserContext (adminUserId p), TxPromiseReject err]"
    using listen_admin_failure [OF assms] by simp_all
next
  assume h: "uniquePeers (peers a) = p # others \<and> createFabricClient env = Inr ()
        \<and> setUserContext_user env = Inr () \<and> sendTransactionProposal env = Inr prs
        \<and> first_response prs = Some r \<and> pr_response r = Some resp \<and> resp_status resp = 200
        \<and> loadPeerCert env = Inr ()"
  then have "snd (invoke env a) =
     (case promise_all (send_rejects_first env) (sendTransaction env)
             (txPromise (listen env p (deadline a))) of
        Pending \<Rightarrow> Pending
      | Rejected e \<Rightarrow> Rejected e
      | Resolved (r0, r1) \<Rightarrow> reconcile (decode_payload env (resp_payload resp)) r0 (Some r1))"
    by (intro invoke_commit_outcome [where r = r and others = others and prs = prs]) simp_all
  then show "snd (invoke env a) =
        Rejected (case sendTransaction env of
                    Inl e0 \<Rightarrow> if send_rejects_first env then e0 else err
                  | Inr r0 \<Rightarrow> err)"
    using listen_admin_failure [OF assms, of p "deadline a"]
    by (simp add: promise_all_def split: sum.splits)
qed

theorem admin_switch_failure_witness:
  "setUserContext_admin (scenario_env\<lparr>setUserContext_admin := Inl (Error ''no admin identity'')\<rparr>)
     = Inl (Error ''no admin identity'')
   \<and> snd (invoke (scenario_env\<lparr>setUserContext_admin := Inl (Error ''no admin identity'')\<rparr>) scenario_args)
     = Rejected (Error ''no admin identity'')
   \<and> trace (listen (scenario_env\<lparr>setUserContext_admin := Inl (Error ''no admin identity'')\<rparr>)
        (mk_peer ''peer0'' ''grpc://localhost:7051'') 30000)
     = [SetUserContext ''admin'', TxPromiseReject (Error ''no admin identity'')]"
proof -
  let ?env = "scenario_env\<lparr>setUserContext_admin := Inl (Error ''no admin identity'')\<rparr>"
  let ?p = "mk_peer ''peer0'' ''grpc://localhost:7051''"
  let ?resp = "\<lparr>resp_status = 200, resp_message = ''OK'', resp_payload = ''true''\<rparr>"
  have h: "setUserContext_admin ?env = Inl (Error ''no admin identity'')" by simp
  note w = admin_switch_failure [OF h, of ?p 30000 scenario_args "[]" "Some [endorsement 200 ''true'']"
      "endorsement 200 ''true''" ?resp]
  have "snd (invoke ?env scenario_args) = Rejected (Error ''no admin identity'')"
    using w [THEN conjunct2, THEN conjunct2]
    by (simp add: scenario_env_def scenario_args_def uniquePeers_scenario first_response_def
        endorsement_def)
  moreover have "trace (listen ?env ?p 30000)
      = [SetUserContext ''admin'', TxPromiseReject (Error ''no admin identity'')]"
    using w [THEN conjunct2, THEN conjunct1] by (simp add: mk_peer_def)
  ultimately show ?thesis using h by simp
qed

text \<open>When the ordering submission has rejected first, the invocation rejects with the error
  of the submission and not with the error of the identity switch.\<close>

theorem admin_switch_race_counterexample:
  "snd (invoke (scenario_env\<lparr>setUserContext_admin := Inl (Error ''no admin identity''),
                  sendTransaction := Inl (Error ''orderer unreachable''),
                  send_rejects_first := True\<rparr>) scenario_args)
     = Rejected (Error ''orderer unreachable'')"
proof -
  let ?env = "scenario_env\<lparr>setUserContext_admin := Inl (Error ''no admin identity''),
                  sendTransaction := Inl (Error ''orderer unreachable''),
                  send_rejects_first := True\<rparr>"
  let ?p = "mk_peer ''peer0'' ''grpc://localhost:7051''"
  let ?resp = "\<lparr>resp_status = 200, resp_message = ''OK'', resp_payload = ''true''\<rparr>"
  have "snd (invoke ?env scenario_args) =
     (case promise_all (send_rejects_first ?env) (sendTransaction ?env)
             (txPromise (listen ?env ?p (deadline scenario_args))) of
        Pending \<Rightarrow> Pending
      | Rejected e \<Rightarrow> Rejected e
      | Resolved (r0, r1) \<Rightarrow> reconcile (decode_payload ?env (resp_payload ?resp)) r0 (Some r1))"
    by (rule invoke_commit_outcome [where others = "[]" and prs = "Some [endorsement 200 ''true'']"
          and r = "endorsement 200 ''true''"])
       (simp_all add: scenario_env_def scenario_args_def uniquePeers_scenario first_response_def
          endorsement_def)
  then show ?thesis
    by (simp add: promise_all_def listen_admin_failure)
qed

end
